theory Spec2Isabelle
  imports Main "HOL-Library.AList"
begin

section \<open>JavaScript values\<close>

text \<open>
  A number is kept as what the source and its libraries observe of it, since nothing here
  computes with numbers: whether it is \<^verbatim>\<open>NaN\<close>, whether it is zero (both are falsy), and
  the text \<^verbatim>\<open>JSON.stringify\<close> writes for it (its \<^verbatim>\<open>ToString\<close> when it is finite, \<^verbatim>\<open>null\<close>
  otherwise).
\<close>

datatype js_number =
  JsNumber (number_isNaN: bool) (number_isZero: bool) (number_text: string)

text \<open>
  The values that travel through \<^verbatim>\<open>index.js\<close>: tool arguments, handler results and the
  components of a JSON-Schema-like parameter description. An object is the list of its own
  properties in enumeration order.
\<close>

datatype js =
    JUndefined
  | JNull
  | JBool bool
  | JNum js_number
  | JStr string
  | JArr "js list"
  | JObj "(string \<times> js) list"

text \<open>\<^verbatim>\<open>o[key]\<close> on an object: the property's value, or \<^verbatim>\<open>undefined\<close> when absent.\<close>

definition get_prop :: "(string \<times> js) list \<Rightarrow> string \<Rightarrow> js" where
  "get_prop fields key = (case map_of fields key of None \<Rightarrow> JUndefined | Some v \<Rightarrow> v)"

text \<open>\<^verbatim>\<open>key in o\<close>.\<close>

definition has_prop :: "(string \<times> js) list \<Rightarrow> string \<Rightarrow> bool" where
  "has_prop fields key = (map_of fields key \<noteq> None)"

text \<open>JavaScript's ToBoolean, as used by \<^verbatim>\<open>args || {}\<close>.\<close>

fun truthy :: "js \<Rightarrow> bool" where
  "truthy JUndefined = False"
| "truthy JNull = False"
| "truthy (JBool b) = b"
| "truthy (JNum n) = (\<not> number_isZero n \<and> \<not> number_isNaN n)"
| "truthy (JStr s) = (s \<noteq> [])"
| "truthy (JArr xs) = True"
| "truthy (JObj fs) = True"

text \<open>
  The type of a value in the vocabulary of the schema dialect
  (\<^verbatim>\<open>string|number|boolean|array|object\<close>); \<^verbatim>\<open>null\<close>, \<^verbatim>\<open>undefined\<close> and \<^verbatim>\<open>NaN\<close>, which
  are no JSON values of these types, have none of the five.
\<close>

fun type_tag_of :: "js \<Rightarrow> string" where
  "type_tag_of JUndefined = ''undefined''"
| "type_tag_of JNull = ''null''"
| "type_tag_of (JBool b) = ''boolean''"
| "type_tag_of (JNum n) = (if number_isNaN n then ''nan'' else ''number'')"
| "type_tag_of (JStr s) = ''string''"
| "type_tag_of (JArr xs) = ''array''"
| "type_tag_of (JObj fs) = ''object''"


text \<open>\<^verbatim>\<open>str.includes(key)\<close> on strings: \<open>key\<close> occurs in \<open>str\<close>.\<close>

fun String_includes :: "string \<Rightarrow> string \<Rightarrow> bool" where
  "String_includes [] key = (key = [])"
| "String_includes (c # cs) key = (take (length key) (c # cs) = key \<or> String_includes cs key)"

section \<open>Validators\<close>

text \<open>
  The validator nodes that \<^verbatim>\<open>jsonSchemaToZodShape\<close> builds with the \<^verbatim>\<open>zod\<close> library (version 3,
  the one the MCP SDK depends on), one constructor per library class the source
  instantiates: \<^verbatim>\<open>z.string()\<close>, \<^verbatim>\<open>z.number()\<close>, \<^verbatim>\<open>z.boolean()\<close>, \<^verbatim>\<open>z.array(el)\<close>,
  \<^verbatim>\<open>z.object(shape)\<close>, \<^verbatim>\<open>z.any()\<close>, \<^verbatim>\<open>z.union(options)\<close>, \<^verbatim>\<open>z.enum(values)\<close>,
  \<^verbatim>\<open>node.optional()\<close>. \<^verbatim>\<open>node.describe(d)\<close> returns a copy of the node that carries the
  text \<open>d\<close> and parses as the node does.
\<close>

datatype zod =
    ZodString
  | ZodNumber
  | ZodBoolean
  | ZodArray zod
  | ZodObject "(string \<times> zod) list"
  | ZodAny
  | ZodUnion "zod list"
  | ZodEnum "js list"
  | ZodOptional zod
  | ZodDescribed zod string

text \<open>
  An object's parsed properties are assembled from the keys of the shape only: a key is
  set when the input had it or when its parsed value is defined. Keys of the input that
  the shape does not name are dropped (the library's default \<^verbatim>\<open>strip\<close> policy).
\<close>

definition mergeObject :: "(string \<times> js) list \<Rightarrow> (string \<times> js) list \<Rightarrow> (string \<times> js) list" where
  "mergeObject fields pairs = filter (\<lambda>(key, v). v \<noteq> JUndefined \<or> has_prop fields key) pairs"

text \<open>
  Parsing: \<open>None\<close> is a validation failure, \<open>Some d\<close> is success with the parsed data \<open>d\<close>.
  A union returns the result of the first option that succeeds.
\<close>

fun zparse :: "zod \<Rightarrow> js \<Rightarrow> js option"
  and zparse_union :: "zod list \<Rightarrow> js \<Rightarrow> js option"
  and zparse_shape :: "(string \<times> zod) list \<Rightarrow> (string \<times> js) list \<Rightarrow> (string \<times> js) list option"
where
  "zparse ZodString v = (case v of JStr s \<Rightarrow> Some v | _ \<Rightarrow> None)"
| "zparse ZodNumber v =
     (case v of JNum n \<Rightarrow> (if number_isNaN n then None else Some v) | _ \<Rightarrow> None)"
| "zparse ZodBoolean v = (case v of JBool b \<Rightarrow> Some v | _ \<Rightarrow> None)"
| "zparse (ZodArray el) v =
     (case v of JArr xs \<Rightarrow> map_option JArr (those (map (zparse el) xs)) | _ \<Rightarrow> None)"
| "zparse (ZodObject shape) v =
     (case v of JObj fields \<Rightarrow> map_option (\<lambda>pairs. JObj (mergeObject fields pairs)) (zparse_shape shape fields)
      | _ \<Rightarrow> None)"
| "zparse ZodAny v = Some v"
| "zparse (ZodUnion options) v = zparse_union options v"
| "zparse (ZodEnum values) v =
     (case v of JStr s \<Rightarrow> (if v \<in> set values then Some v else None) | _ \<Rightarrow> None)"
| "zparse (ZodOptional inner) v = (if v = JUndefined then Some JUndefined else zparse inner v)"
| "zparse (ZodDescribed inner d) v = zparse inner v"
| "zparse_union [] v = None"
| "zparse_union (option # options) v =
     (case zparse option v of Some d \<Rightarrow> Some d | None \<Rightarrow> zparse_union options v)"
| "zparse_shape [] fields = Some []"
| "zparse_shape ((key, validator) # shape) fields =
     (case zparse validator (get_prop fields key) of
        None \<Rightarrow> None
      | Some d \<Rightarrow> map_option (\<lambda>pairs. (key, d) # pairs) (zparse_shape shape fields))"

definition accepts :: "zod \<Rightarrow> js \<Rightarrow> bool" where
  "accepts node v = (zparse node v \<noteq> None)"



section \<open>Schema translator\<close>

text \<open>
  A parameter description as the tool modules write it:
  \<^verbatim>\<open>{ properties: { name: FieldSpec, ... }, required: [name, ...] }\<close>. A FieldSpec's \<^verbatim>\<open>type\<close>
  is kept as the raw value the source inspects (a string, an array, or \<^verbatim>\<open>undefined\<close> when
  absent); \<open>None\<close> stands for an absent \<^verbatim>\<open>enum\<close> or \<^verbatim>\<open>description\<close>. In \<^verbatim>\<open>properties\<close> a
  name may also be mapped to \<^verbatim>\<open>null\<close> or \<^verbatim>\<open>undefined\<close> instead of a FieldSpec, which is the
  entry \<open>None\<close> (any other value that is no FieldSpec reads as one without the three
  properties). \<^verbatim>\<open>required\<close> is kept as the raw value too: \<^verbatim>\<open>undefined\<close> when absent, an
  array of names, or anything else. \<open>None\<close> stands for absent \<^verbatim>\<open>properties\<close> and for an
  absent schema.
\<close>

record field_spec =
  fs_type :: js
  fs_enum :: "js list option"
  fs_description :: "string option"

record json_schema =
  properties :: "(string \<times> field_spec option) list option"
  required :: js

type_synonym zod_shape = "(string \<times> zod) list"

text \<open>
  What can throw in the translator: reading a property of \<^verbatim>\<open>undefined\<close> or \<^verbatim>\<open>null\<close> (of the
  schema, or of a FieldSpec at line 41), enumerating the entries of \<^verbatim>\<open>undefined\<close>, and
  calling \<^verbatim>\<open>includes\<close> on a value that has no such method (line 81). Each is a TypeError in
  JavaScript and an \<open>Inl\<close> here.
\<close>

datatype js_error = TypeError

definition read_properties ::
  "json_schema option \<Rightarrow> js_error + (string \<times> field_spec option) list option" where
  "read_properties jsonSchema =
     (case jsonSchema of None \<Rightarrow> Inl TypeError | Some s \<Rightarrow> Inr (properties s))"

definition read_required :: "json_schema option \<Rightarrow> js_error + js" where
  "read_required jsonSchema =
     (case jsonSchema of None \<Rightarrow> Inl TypeError | Some s \<Rightarrow> Inr (required s))"

definition Object_entries ::
  "(string \<times> field_spec option) list option \<Rightarrow> js_error + (string \<times> field_spec option) list" where
  "Object_entries props = (case props of None \<Rightarrow> Inl TypeError | Some entries \<Rightarrow> Inr entries)"

text \<open>The first read of a property of \<^verbatim>\<open>value\<close> (\<^verbatim>\<open>value.type\<close>, line 41).\<close>

definition read_FieldSpec :: "field_spec option \<Rightarrow> js_error + field_spec" where
  "read_FieldSpec value = (case value of None \<Rightarrow> Inl TypeError | Some spec \<Rightarrow> Inr spec)"

text \<open>
  \<^verbatim>\<open>r.includes(key)\<close> with a string \<open>key\<close>: arrays and strings have the method, an array
  includes the key when one of its elements is that string; on every other value the call
  throws.
\<close>

definition call_includes :: "js \<Rightarrow> string \<Rightarrow> js_error + bool" where
  "call_includes r key =
     (case r of
        JArr names \<Rightarrow> Inr (JStr key \<in> set names)
      | JStr str \<Rightarrow> Inr (String_includes str key)
      | _ \<Rightarrow> Inl TypeError)"

text \<open>The arrow function mapped over a multi-type list (lines 43 to 50).\<close>

definition zod_of_tag :: "js \<Rightarrow> zod" where
  "zod_of_tag t =
     (if t = JStr ''string'' then ZodString
      else if t = JStr ''number'' then ZodNumber
      else if t = JStr ''boolean'' then ZodBoolean
      else if t = JStr ''array'' then ZodArray ZodAny
      else if t = JStr ''object'' then ZodObject []
      else ZodAny)"

text \<open>The value of \<^verbatim>\<open>zodType\<close> after the if-chain of lines 41 to 78.\<close>

definition zodType_of :: "field_spec \<Rightarrow> zod" where
  "zodType_of value =
     (case fs_type value of
        JArr ts \<Rightarrow>
          (let types = map zod_of_tag ts in
           if length types = 2 then ZodUnion [types ! 0, types ! 1]
           else if length types = 3 then ZodUnion [types ! 0, types ! 1, types ! 2]
           else ZodAny)
      | _ \<Rightarrow>
          (if fs_type value = JStr ''string'' then
             (case fs_enum value of Some values \<Rightarrow> ZodEnum values | None \<Rightarrow> ZodString)
           else if fs_type value = JStr ''number'' then ZodNumber
           else if fs_type value = JStr ''boolean'' then ZodBoolean
           else if fs_type value = JStr ''array'' then ZodArray ZodAny
           else if fs_type value = JStr ''object'' then ZodObject []
           else ZodAny))"

text \<open>\<^verbatim>\<open>value.description || ''\<close>.\<close>

definition description_or_empty :: "field_spec \<Rightarrow> string" where
  "description_or_empty value = (case fs_description value of None \<Rightarrow> [] | Some d \<Rightarrow> d)"

text \<open>\<^verbatim>\<open>jsonSchema.required && jsonSchema.required.includes(key)\<close>, as a truth value.\<close>

definition required_includes :: "json_schema option \<Rightarrow> string \<Rightarrow> js_error + bool" where
  "required_includes jsonSchema key =
     (case read_required jsonSchema of
        Inl e \<Rightarrow> Inl e
      | Inr r \<Rightarrow>
          (if \<not> truthy r then Inr False
           else (case read_required jsonSchema of
                   Inl e \<Rightarrow> Inl e
                 | Inr r' \<Rightarrow> call_includes r' key)))"

text \<open>
  \<^verbatim>\<open>zodShape[key] = node\<close> on the plain object \<^verbatim>\<open>zodShape\<close>: it replaces the value of an
  existing key and appends a new one, except for the key \<^verbatim>\<open>__proto__\<close>, where the assignment
  sets the prototype of \<^verbatim>\<open>zodShape\<close> and adds no property.
\<close>

definition assign_property :: "string \<Rightarrow> zod \<Rightarrow> zod_shape \<Rightarrow> zod_shape" where
  "assign_property key node zodShape =
     (if key = ''__proto__'' then zodShape else AList.update key node zodShape)"

text \<open>The \<^verbatim>\<open>for\<close> loop of lines 37 to 86 over the entries still to visit.\<close>

fun jsonSchemaToZodShape_loop ::
  "json_schema option \<Rightarrow> (string \<times> field_spec option) list \<Rightarrow> zod_shape
   \<Rightarrow> js_error + zod_shape" where
  "jsonSchemaToZodShape_loop jsonSchema [] zodShape = Inr zodShape"
| "jsonSchemaToZodShape_loop jsonSchema ((key, value) # entries) zodShape =
     (case read_FieldSpec value of
        Inl e \<Rightarrow> Inl e
      | Inr spec \<Rightarrow>
          (case required_includes jsonSchema key of
             Inl e \<Rightarrow> Inl e
           | Inr is_required \<Rightarrow>
               jsonSchemaToZodShape_loop jsonSchema entries
                 (assign_property key
                    (if is_required
                     then ZodDescribed (zodType_of spec) (description_or_empty spec)
                     else ZodDescribed (ZodOptional (zodType_of spec)) (description_or_empty spec))
                    zodShape)))"

definition jsonSchemaToZodShape :: "json_schema option \<Rightarrow> js_error + zod_shape" where
  "jsonSchemaToZodShape jsonSchema =
     (if jsonSchema = None then Inr []
      else (case read_properties jsonSchema of
              Inl e \<Rightarrow> Inl e
            | Inr p \<Rightarrow>
                (if p = None then Inr []
                 else (case read_properties jsonSchema of
                         Inl e \<Rightarrow> Inl e
                       | Inr props \<Rightarrow>
                           (case Object_entries props of
                              Inl e \<Rightarrow> Inl e
                            | Inr entries \<Rightarrow> jsonSchemaToZodShape_loop jsonSchema entries [])))))"

section \<open>Result normalisation: \<^verbatim>\<open>JSON.stringify\<close>\<close>

text \<open>
  \<^verbatim>\<open>JSON.stringify(value, null, gap)\<close> as ECMAScript defines it on the values above: \<open>None\<close> is
  the result \<^verbatim>\<open>undefined\<close>; an \<^verbatim>\<open>undefined\<close> array element is written \<^verbatim>\<open>null\<close>, an \<^verbatim>\<open>undefined\<close>
  property is left out; with an empty gap nothing is indented, otherwise every nesting
  level starts a new line and adds one gap.
\<close>

text \<open>The hexadecimal digit of a value below 16.\<close>

definition digit_char :: "nat \<Rightarrow> char" where
  "digit_char d = ''0123456789abcdef'' ! d"

definition escape_char :: "char \<Rightarrow> string" where
  "escape_char c =
     (if c = CHR 0x08 then [CHR 0x5C, CHR ''b'']
      else if c = CHR 0x09 then [CHR 0x5C, CHR ''t'']
      else if c = CHR 0x0A then [CHR 0x5C, CHR ''n'']
      else if c = CHR 0x0C then [CHR 0x5C, CHR ''f'']
      else if c = CHR 0x0D then [CHR 0x5C, CHR ''r'']
      else if c = CHR 0x22 then [CHR 0x5C, CHR 0x22]
      else if c = CHR 0x5C then [CHR 0x5C, CHR 0x5C]
      else if (of_char c :: nat) < 32 then
        [CHR 0x5C, CHR ''u'', CHR ''0'', CHR ''0'',
         digit_char (of_char c div 16), digit_char (of_char c mod 16)]
      else [c])"

definition QuoteJSONString :: "string \<Rightarrow> string" where
  "QuoteJSONString s = [CHR 0x22] @ concat (map escape_char s) @ [CHR 0x22]"

fun join :: "string \<Rightarrow> string list \<Rightarrow> string" where
  "join sep [] = []"
| "join sep [x] = x"
| "join sep (x # y # ys) = x @ sep @ join sep (y # ys)"

definition wrap_partial :: "string \<Rightarrow> string \<Rightarrow> string \<Rightarrow> string \<Rightarrow> string list \<Rightarrow> string" where
  "wrap_partial gap stepback opening closing partial =
     (if partial = [] then opening @ closing
      else if gap = [] then opening @ join '','' partial @ closing
      else opening @ [CHR 0x0A] @ (stepback @ gap)
           @ join ('','' @ [CHR 0x0A] @ (stepback @ gap)) partial
           @ [CHR 0x0A] @ stepback @ closing)"

fun SerializeJSONProperty :: "string \<Rightarrow> string \<Rightarrow> js \<Rightarrow> string option"
  and SerializeJSONArray :: "string \<Rightarrow> string \<Rightarrow> js list \<Rightarrow> string list"
  and SerializeJSONObject :: "string \<Rightarrow> string \<Rightarrow> (string \<times> js) list \<Rightarrow> string list"
where
  "SerializeJSONProperty gap indent JUndefined = None"
| "SerializeJSONProperty gap indent JNull = Some ''null''"
| "SerializeJSONProperty gap indent (JBool b) = Some (if b then ''true'' else ''false'')"
| "SerializeJSONProperty gap indent (JNum n) = Some (number_text n)"
| "SerializeJSONProperty gap indent (JStr s) = Some (QuoteJSONString s)"
| "SerializeJSONProperty gap indent (JArr xs) =
     Some (wrap_partial gap indent ''['' '']'' (SerializeJSONArray gap (indent @ gap) xs))"
| "SerializeJSONProperty gap indent (JObj fs) =
     Some (wrap_partial gap indent ''{'' ''}'' (SerializeJSONObject gap (indent @ gap) fs))"
| "SerializeJSONArray gap indent [] = []"
| "SerializeJSONArray gap indent (x # xs) =
     (case SerializeJSONProperty gap indent x of None \<Rightarrow> ''null'' | Some str \<Rightarrow> str)
       # SerializeJSONArray gap indent xs"
| "SerializeJSONObject gap indent [] = []"
| "SerializeJSONObject gap indent ((key, v) # fs) =
     (case SerializeJSONProperty gap indent v of
        None \<Rightarrow> SerializeJSONObject gap indent fs
      | Some str \<Rightarrow>
          (QuoteJSONString key @ '':'' @ (if gap = [] then [] else '' '') @ str)
            # SerializeJSONObject gap indent fs)"

definition JSON_stringify :: "js \<Rightarrow> string \<Rightarrow> string option" where
  "JSON_stringify v gap = SerializeJSONProperty gap [] v"

section \<open>Dispatcher\<close>

text \<open>
  A tool descriptor as the domain modules export it. The handler is asynchronous: awaiting
  it gives its result (\<open>Inr\<close>) or the error it threw or rejected with (\<open>Inl\<close>).
\<close>

record 'e tool_descriptor =
  tool_name :: string
  tool_description :: "string option"
  tool_parameters :: "json_schema option"
  tool_handler :: "js \<Rightarrow> 'e + js"

text \<open>What the logger has been given: \<^verbatim>\<open>logger.info(message, text)\<close> and \<^verbatim>\<open>logger.error(message, error)\<close>.\<close>

datatype 'e log_entry =
    LogInfo string "string option"
  | LogError string 'e

text \<open>The value a text payload takes when \<^verbatim>\<open>JSON.stringify\<close> returns a string or \<^verbatim>\<open>undefined\<close>.\<close>

definition js_of_text :: "string option \<Rightarrow> js" where
  "js_of_text t = (case t of None \<Rightarrow> JUndefined | Some str \<Rightarrow> JStr str)"

text \<open>
  \<^verbatim>\<open>wrappedHandler\<close> (lines 96 to 114), with the log threaded through: the outcome is the
  returned envelope (\<open>Inr\<close>) or the re-thrown error (\<open>Inl\<close>).
\<close>

definition wrappedHandler ::
  "'e tool_descriptor \<Rightarrow> js \<Rightarrow> 'e log_entry list \<Rightarrow> ('e + js) \<times> 'e log_entry list" where
  "wrappedHandler tool args log =
     (let log1 = log @ [LogInfo (''Tool '' @ tool_name tool @ '' called with args:'')
                                (JSON_stringify args [])]
      in case tool_handler tool (if truthy args then args else JObj []) of
           Inr result \<Rightarrow>
             (Inr (JObj [(''content'',
                          JArr [JObj [(''type'', JStr ''text''),
                                      (''text'', js_of_text (JSON_stringify result ''  ''))]])]),
              log1)
         | Inl error \<Rightarrow>
             (Inl error, log1 @ [LogError (''Error in tool '' @ tool_name tool @ '':'') error]))"

section \<open>Registration with the MCP server\<close>

text \<open>
  The server object of the MCP SDK, as far as \<^verbatim>\<open>index.js\<close> drives it: the tools registered
  so far, each with its description, its input schema \<^verbatim>\<open>z.object(shape)\<close> and its callback,
  and whether a transport is connected. \<^verbatim>\<open>server.tool\<close> throws when the name is already
  registered. On a call the SDK parses the arguments against the input schema, answers a
  failure with an invalid-parameters error without invoking the callback, and otherwise
  invokes the callback with the parsed data.
\<close>

record 'e registered_tool =
  rt_description :: string
  rt_inputSchema :: zod
  rt_callback :: "js \<Rightarrow> 'e log_entry list \<Rightarrow> ('e + js) \<times> 'e log_entry list"

record 'e mcp_server =
  registeredTools :: "(string \<times> 'e registered_tool) list"
  connected :: bool

datatype startup_error =
    AlreadyRegistered string
  | Thrown js_error

definition new_McpServer :: "'e mcp_server" where
  "new_McpServer = \<lparr>registeredTools = [], connected = False\<rparr>"

definition server_tool ::
  "string \<Rightarrow> string \<Rightarrow> zod_shape \<Rightarrow> (js \<Rightarrow> 'e log_entry list \<Rightarrow> ('e + js) \<times> 'e log_entry list)
   \<Rightarrow> 'e mcp_server \<Rightarrow> startup_error + 'e mcp_server" where
  "server_tool name description shape cb server =
     (if map_of (registeredTools server) name \<noteq> None then Inl (AlreadyRegistered name)
      else Inr (server\<lparr>registeredTools := registeredTools server @
                  [(name, \<lparr>rt_description = description,
                           rt_inputSchema = ZodObject shape,
                           rt_callback = cb\<rparr>)]\<rparr>))"

definition tools_call ::
  "'e registered_tool \<Rightarrow> js \<Rightarrow> 'e log_entry list \<Rightarrow> (('e + js) \<times> 'e log_entry list) option" where
  "tools_call tool arguments log =
     (case zparse (rt_inputSchema tool) arguments of
        None \<Rightarrow> None
      | Some args \<Rightarrow> Some (rt_callback tool args log))"

text \<open>\<^verbatim>\<open>tool.description || ''\<close>.\<close>

definition tool_description_or_empty :: "'e tool_descriptor \<Rightarrow> string" where
  "tool_description_or_empty tool = (case tool_description tool of None \<Rightarrow> [] | Some d \<Rightarrow> d)"

text \<open>The registration loop of lines 92 to 118; a throw ends it.\<close>

fun register_tools :: "'e tool_descriptor list \<Rightarrow> 'e mcp_server \<Rightarrow> startup_error + 'e mcp_server" where
  "register_tools [] server = Inr server"
| "register_tools (tool # tools) server =
     (case jsonSchemaToZodShape (tool_parameters tool) of
        Inl e \<Rightarrow> Inl (Thrown e)
      | Inr zodShape \<Rightarrow>
          (case server_tool (tool_name tool) (tool_description_or_empty tool) zodShape
                  (wrappedHandler tool) server of
             Inl e \<Rightarrow> Inl e
           | Inr server' \<Rightarrow> register_tools tools server'))"

text \<open>
  The module body: register every tool of \<^verbatim>\<open>TOOLS\<close>, then connect the transport. An error
  thrown while registering ends the process before \<^verbatim>\<open>server.connect\<close> is reached.
\<close>

definition startup :: "'e tool_descriptor list \<Rightarrow> startup_error + 'e mcp_server" where
  "startup TOOLS =
     (case register_tools TOOLS new_McpServer of
        Inl e \<Rightarrow> Inl e
      | Inr server \<Rightarrow> Inr (server\<lparr>connected := True\<rparr>))"

section \<open>Pretty-printed JSON text\<close>






text \<open>
  Reading a JSON string literal by the JSON grammar: between the quotes, a backslash starts
  an escape (one of the two-character escapes or \<^verbatim>\<open>\uXXXX\<close>), and neither a bare quote nor
  a control character may occur. \<open>None\<close> is a text that is no string literal.
\<close>

definition hex_value :: "char \<Rightarrow> nat option" where
  "hex_value c =
     map_of [(CHR ''0'', 0), (CHR ''1'', 1), (CHR ''2'', 2), (CHR ''3'', 3), (CHR ''4'', 4),
             (CHR ''5'', 5), (CHR ''6'', 6), (CHR ''7'', 7), (CHR ''8'', 8), (CHR ''9'', 9),
             (CHR ''a'', 10), (CHR ''b'', 11), (CHR ''c'', 12), (CHR ''d'', 13), (CHR ''e'', 14),
             (CHR ''f'', 15), (CHR ''A'', 10), (CHR ''B'', 11), (CHR ''C'', 12), (CHR ''D'', 13),
             (CHR ''E'', 14), (CHR ''F'', 15)] c"

definition simple_escape :: "char \<Rightarrow> char option" where
  "simple_escape e =
     map_of [(CHR ''b'', CHR 0x08), (CHR ''t'', CHR 0x09), (CHR ''n'', CHR 0x0A),
             (CHR ''f'', CHR 0x0C), (CHR ''r'', CHR 0x0D), (CHR 0x22, CHR 0x22),
             (CHR 0x5C, CHR 0x5C), (CHR ''/'', CHR ''/'')] e"

fun json_string_chars :: "string \<Rightarrow> string option" where
  "json_string_chars [] = Some []"
| "json_string_chars (c # cs) =
     (if c = CHR 0x5C then
        (case cs of
           [] \<Rightarrow> None
         | e # rest \<Rightarrow>
             (if e = CHR ''u'' then
                (case rest of
                   h1 # h2 # h3 # h4 # rest' \<Rightarrow>
                     (case (hex_value h1, hex_value h2, hex_value h3, hex_value h4) of
                        (Some a, Some b, Some c', Some d) \<Rightarrow>
                          (if ((a * 16 + b) * 16 + c') * 16 + d < 256
                           then map_option ((#) (char_of (((a * 16 + b) * 16 + c') * 16 + d)))
                                  (json_string_chars rest')
                           else None)
                      | _ \<Rightarrow> None)
                 | _ \<Rightarrow> None)
              else (case simple_escape e of
                      None \<Rightarrow> None
                    | Some x \<Rightarrow> map_option ((#) x) (json_string_chars rest))))
      else if c = CHR 0x22 \<or> (of_char c :: nat) < 32 then None
      else map_option ((#) c) (json_string_chars cs))"

definition json_string_value :: "string \<Rightarrow> string option" where
  "json_string_value t =
     (case t of
        [] \<Rightarrow> None
      | q # cs \<Rightarrow>
          (if q = CHR 0x22 \<and> cs \<noteq> [] \<and> last cs = CHR 0x22
           then json_string_chars (butlast cs) else None))"

section \<open>Notions used to state the properties\<close>





text \<open>
  Every name of \<^verbatim>\<open>properties\<close> is mapped to a FieldSpec, none to \<^verbatim>\<open>null\<close> or \<^verbatim>\<open>undefined\<close>.
\<close>

definition field_specs_are_objects :: "(string \<times> field_spec option) list \<Rightarrow> bool" where
  "field_specs_are_objects entries = list_all (\<lambda>(key, value). value \<noteq> None) entries"



text \<open>
  The value has an \<^verbatim>\<open>includes\<close> method: it is an array or a string.
\<close>

definition has_includes :: "js \<Rightarrow> bool" where
  "has_includes r = (case r of JArr names \<Rightarrow> True | JStr str \<Rightarrow> True | _ \<Rightarrow> False)"

text \<open>
  The inputs on which the translator returns a shape: an absent schema, a schema without
  \<^verbatim>\<open>properties\<close> or with none declared, and a schema in which every declared FieldSpec is
  an object and \<^verbatim>\<open>required\<close> is falsy or has an \<^verbatim>\<open>includes\<close> method.
\<close>

definition translates :: "json_schema option \<Rightarrow> bool" where
  "translates jsonSchema =
     (case jsonSchema of
        None \<Rightarrow> True
      | Some s \<Rightarrow>
          (case properties s of
             None \<Rightarrow> True
           | Some entries \<Rightarrow>
               entries = [] \<or>
               (field_specs_are_objects entries \<and>
                (\<not> truthy (required s) \<or> has_includes (required s)))))"



subsection \<open>Schemas, tools and values of the examples\<close>

text \<open>
  A finite number other than zero, given by the digits of its \<^verbatim>\<open>ToString\<close>.
\<close>

definition number_value :: "string \<Rightarrow> js" where
  "number_value digits = JNum (JsNumber False False digits)"








text \<open>
  A tool named \<^verbatim>\<open>list_emails\<close> whose handler fails with the given message.
\<close>

definition list_emails_tool :: "string \<Rightarrow> string tool_descriptor" where
  "list_emails_tool msg =
     \<lparr>tool_name = ''list_emails'', tool_description = None, tool_parameters = None,
      tool_handler = (\<lambda>params. Inl msg)\<rparr>"





text \<open>
  A tool with a \<^verbatim>\<open>location\<close> of type \<^verbatim>\<open>['string', 'object']\<close> and \<^verbatim>\<open>conditions\<close> of type
  \<^verbatim>\<open>'object'\<close>, whose handler returns the parameters it was invoked with.
\<close>

definition echo_tool :: "string tool_descriptor" where
  "echo_tool =
     \<lparr>tool_name = ''create_event'', tool_description = None,
      tool_parameters =
        Some \<lparr>properties =
                 Some [(''location'', Some \<lparr>fs_type = JArr [JStr ''string'', JStr ''object''],
                                             fs_enum = None, fs_description = None\<rparr>),
                       (''conditions'', Some \<lparr>fs_type = JStr ''object'', fs_enum = None,
                                               fs_description = None\<rparr>)],
               required = JUndefined\<rparr>,
      tool_handler = (\<lambda>params. Inr params)\<rparr>"

definition echo_shape :: zod_shape where
  "echo_shape =
     [(''location'', ZodDescribed (ZodOptional (ZodUnion [ZodString, ZodObject []])) []),
      (''conditions'', ZodDescribed (ZodOptional (ZodObject [])) [])]"

definition echo_arguments :: js where
  "echo_arguments =
     JObj [(''location'', JObj [(''displayName'', JStr ''Room 1'')]),
           (''conditions'', JObj [(''fromAddresses'', JArr [JStr ''a@example.com''])])]"

section \<open>The translator on schemas of the data model\<close>











lemma zparse_union_None_iff:
  "zparse_union options v = None \<longleftrightarrow> (\<forall>z \<in> set options. zparse z v = None)"
  by (induction options) (auto split: option.splits)

lemma accepts_union:
  "accepts (ZodUnion options) v \<longleftrightarrow> (\<exists>z \<in> set options. accepts z v)"
  by (simp add: accepts_def zparse_union_None_iff)

lemma zodType_of_multi:
  assumes "fs_type val = JArr (map JStr ts)" and "length ts = 2 \<or> length ts = 3"
  shows "zodType_of val = ZodUnion (map (\<lambda>t. zod_of_tag (JStr t)) ts)"
proof -
  from assms(2) consider a b where "ts = [a, b]" | a b c where "ts = [a, b, c]"
    by (cases ts; cases "tl ts"; cases "tl (tl ts)"; cases "tl (tl (tl ts))") auto
  then show ?thesis
    by cases (simp_all add: zodType_of_def assms(1))
qed




text \<open>The definitions to unfold when the translator is run on a given schema.\<close>

lemmas translator_defs =
  jsonSchemaToZodShape_def read_properties_def read_required_def Object_entries_def
  read_FieldSpec_def call_includes_def required_includes_def assign_property_def
  zodType_of_def zod_of_tag_def description_or_empty_def

section \<open>Multi-type fields\<close>



section \<open>Where the translator throws\<close>

lemma only_TypeError: "(x = Inl TypeError) \<longleftrightarrow> (\<forall>y. x \<noteq> Inr y)"
proof (cases x)
  case (Inl e)
  then show ?thesis by (cases e) simp
next
  case (Inr y)
  then show ?thesis by simp
qed

lemma required_includes_returns:
  assumes "\<not> truthy (required s) \<or> has_includes (required s)"
  shows "\<exists>b. required_includes (Some s) key = Inr b"
  using assms
  by (cases "required s")
     (auto simp: required_includes_def read_required_def call_includes_def has_includes_def)

lemma required_includes_throws:
  assumes "truthy (required s)" and "\<not> has_includes (required s)"
  shows "required_includes (Some s) key = Inl TypeError"
  using assms
  by (cases "required s")
     (auto simp: required_includes_def read_required_def call_includes_def has_includes_def)

lemma loop_returns:
  assumes "\<not> truthy (required s) \<or> has_includes (required s)"
    and "field_specs_are_objects entries"
  shows "\<exists>shape. jsonSchemaToZodShape_loop (Some s) entries zodShape = Inr shape"
  using assms(2)
proof (induction entries arbitrary: zodShape)
  case Nil
  then show ?case by simp
next
  case (Cons e entries)
  obtain key val where e: "e = (key, Some val)"
    using Cons.prems by (cases e) (auto simp: field_specs_are_objects_def)
  from Cons.prems have rest: "field_specs_are_objects entries"
    by (simp add: field_specs_are_objects_def)
  from required_includes_returns [OF assms(1)]
  obtain b where "required_includes (Some s) key = Inr b" by blast
  with Cons.IH [OF rest] show ?case
    by (simp add: e read_FieldSpec_def)
qed

lemma loop_throws_on_null:
  assumes "\<not> field_specs_are_objects entries"
  shows "jsonSchemaToZodShape_loop jsonSchema entries zodShape = Inl TypeError"
  using assms
proof (induction entries arbitrary: zodShape)
  case Nil
  then show ?case by (simp add: field_specs_are_objects_def)
next
  case (Cons e entries)
  obtain key val where e: "e = (key, val)" by (cases e)
  show ?case
  proof (cases val)
    case None
    then show ?thesis by (simp add: e read_FieldSpec_def)
  next
    case (Some spec)
    with Cons.prems have "\<not> field_specs_are_objects entries"
      by (simp add: e field_specs_are_objects_def)
    from Cons.IH [OF this] Some show ?thesis
      by (auto simp: e read_FieldSpec_def only_TypeError split: sum.splits)
  qed
qed

lemma loop_throws_on_required:
  assumes "truthy (required s)" and "\<not> has_includes (required s)" and "entries \<noteq> []"
  shows "jsonSchemaToZodShape_loop (Some s) entries zodShape = Inl TypeError"
proof -
  from assms(3) obtain key val rest where entries: "entries = (key, val) # rest"
    by (cases entries) auto
  show ?thesis
    by (cases val)
       (simp_all add: entries read_FieldSpec_def required_includes_throws [OF assms(1,2)])
qed

lemma jsonSchemaToZodShape_returns_iff:
  "(\<exists>shape. jsonSchemaToZodShape jsonSchema = Inr shape) \<longleftrightarrow> translates jsonSchema"
proof (cases jsonSchema)
  case None
  then show ?thesis by (simp add: jsonSchemaToZodShape_def translates_def)
next
  case (Some s)
  show ?thesis
  proof (cases "properties s")
    case None
    with Some show ?thesis
      by (simp add: jsonSchemaToZodShape_def translates_def read_properties_def)
  next
    case (Some entries)
    have run: "jsonSchemaToZodShape (Some s) = jsonSchemaToZodShape_loop (Some s) entries []"
      using Some by (simp add: jsonSchemaToZodShape_def read_properties_def Object_entries_def)
    show ?thesis
    proof (cases "translates (Some s)")
      case True
      then consider "entries = []"
        | "field_specs_are_objects entries" "\<not> truthy (required s) \<or> has_includes (required s)"
        using Some by (auto simp: translates_def)
      then have "\<exists>shape. jsonSchemaToZodShape_loop (Some s) entries [] = Inr shape"
      proof cases
        case 1
        then show ?thesis by simp
      next
        case 2
        from loop_returns [OF 2(2,1)] show ?thesis .
      qed
      with True run \<open>jsonSchema = Some s\<close> show ?thesis by simp
    next
      case False
      then have ne: "entries \<noteq> []"
        and bad: "\<not> field_specs_are_objects entries \<or>
                  (truthy (required s) \<and> \<not> has_includes (required s))"
        using Some by (auto simp: translates_def)
      from bad have "jsonSchemaToZodShape_loop (Some s) entries [] = Inl TypeError"
        using loop_throws_on_null loop_throws_on_required [OF _ _ ne] by blast
      with False run \<open>jsonSchema = Some s\<close> show ?thesis by simp
    qed
  qed
qed





section \<open>Required and optional nodes\<close>





section \<open>Enumerations\<close>







section \<open>Names that are required but not declared\<close>









section \<open>Multi-type lists of other lengths\<close>

text \<open>
  C1 at a list of four primitive tags: the derived node is the accept-anything validator,
  so an object, whose type is none of the four listed, and \<^verbatim>\<open>null\<close> are accepted.
\<close>

theorem four_type_list_accepts_anything:
  "jsonSchemaToZodShape
     (Some \<lparr>properties = Some [(''value'', Some \<lparr>fs_type = JArr [JStr ''string'', JStr ''number'',
                                                                  JStr ''boolean'', JStr ''array''],
                                                 fs_enum = None, fs_description = None\<rparr>)],
            required = JArr [JStr ''value'']\<rparr>)
     = Inr [(''value'', ZodDescribed ZodAny [])] \<and>
   type_tag_of (JObj [(''a'', number_value ''1'')]) \<notin> set [''string'', ''number'', ''boolean'', ''array''] \<and>
   accepts (ZodDescribed ZodAny []) (JObj [(''a'', number_value ''1'')]) \<and>
   accepts (ZodObject [(''value'', ZodDescribed ZodAny [])])
     (JObj [(''value'', JObj [(''a'', number_value ''1'')])]) \<and>
   accepts (ZodObject [(''value'', ZodDescribed ZodAny [])]) (JObj [(''value'', JNull)])"
  by (simp add: translator_defs accepts_def get_prop_def)

section \<open>A field named \<^verbatim>\<open>__proto__\<close>\<close>

lemma proto_field_gets_no_node:
  "jsonSchemaToZodShape
     (Some \<lparr>properties = Some [(''__proto__'', Some \<lparr>fs_type = JStr ''string'', fs_enum = None,
                                                      fs_description = None\<rparr>),
                               (''body'', Some \<lparr>fs_type = JStr ''string'', fs_enum = None,
                                                fs_description = None\<rparr>)],
            required = JArr [JStr ''__proto__'']\<rparr>)
     = Inr [(''body'', ZodDescribed (ZodOptional ZodString) [])]"
  by (simp add: translator_defs)

section \<open>Duplicate tool names\<close>

lemma register_tools_throws:
  assumes "\<not> translates (tool_parameters tool)"
  shows "register_tools (tool # tools) server = Inl (Thrown TypeError)"
proof -
  from assms have "jsonSchemaToZodShape (tool_parameters tool) = Inl TypeError"
    unfolding only_TypeError using jsonSchemaToZodShape_returns_iff by blast
  then show ?thesis by simp
qed

lemma register_tools_step:
  assumes "translates (tool_parameters tool)"
    and "map_of (registeredTools server) (tool_name tool) = None"
  shows "\<exists>server'. register_tools (tool # tools) server = register_tools tools server' \<and>
           map fst (registeredTools server') = map fst (registeredTools server) @ [tool_name tool]"
proof -
  obtain shape where shape: "jsonSchemaToZodShape (tool_parameters tool) = Inr shape"
    using assms(1) jsonSchemaToZodShape_returns_iff by blast
  let ?server' = "server\<lparr>registeredTools := registeredTools server @
      [(tool_name tool, \<lparr>rt_description = tool_description_or_empty tool,
                          rt_inputSchema = ZodObject shape,
                          rt_callback = wrappedHandler tool\<rparr>)]\<rparr>"
  from assms(2) shape have "register_tools (tool # tools) server = register_tools tools ?server'"
    by (simp add: server_tool_def)
  moreover have "map fst (registeredTools ?server') = map fst (registeredTools server) @ [tool_name tool]"
    by simp
  ultimately show ?thesis by blast
qed

lemma register_tools_registered:
  assumes "translates (tool_parameters tool)"
    and "map_of (registeredTools server) (tool_name tool) \<noteq> None"
  shows "register_tools (tool # tools) server = Inl (AlreadyRegistered (tool_name tool))"
proof -
  obtain shape where "jsonSchemaToZodShape (tool_parameters tool) = Inr shape"
    using assms(1) jsonSchemaToZodShape_returns_iff by blast
  with assms(2) show ?thesis
    by (simp add: server_tool_def)
qed

lemma register_tools_duplicate:
  assumes "\<not> distinct (map tool_name tools) \<or>
           (\<exists>t \<in> set tools. tool_name t \<in> fst ` set (registeredTools server))"
  shows "(\<exists>name \<in> tool_name ` set tools. register_tools tools server = Inl (AlreadyRegistered name)) \<or>
         (register_tools tools server = Inl (Thrown TypeError) \<and>
          (\<exists>t \<in> set tools. \<not> translates (tool_parameters t)))"
  using assms
proof (induction tools arbitrary: server)
  case Nil
  then show ?case by simp
next
  case (Cons tool tools)
  show ?case
  proof (cases "translates (tool_parameters tool)")
    case False
    from register_tools_throws [OF False] False show ?thesis by simp
  next
    case tr: True
    show ?thesis
    proof (cases "map_of (registeredTools server) (tool_name tool) = None")
      case False
      from register_tools_registered [OF tr this] show ?thesis by simp
    next
      case True
      then have fresh: "tool_name tool \<notin> fst ` set (registeredTools server)"
        by (simp add: map_of_eq_None_iff)
      from register_tools_step [OF tr True]
      obtain server' where step: "register_tools (tool # tools) server = register_tools tools server'"
        and names: "map fst (registeredTools server') = map fst (registeredTools server) @ [tool_name tool]"
        by blast
      from names have "set (map fst (registeredTools server'))
          = set (map fst (registeredTools server) @ [tool_name tool])"
        by simp
      then have keys: "fst ` set (registeredTools server')
          = insert (tool_name tool) (fst ` set (registeredTools server))"
        by simp
      from Cons.prems fresh
      have "\<not> distinct (map tool_name tools) \<or>
            (\<exists>t \<in> set tools. tool_name t \<in> fst ` set (registeredTools server'))"
        unfolding keys by auto
      from Cons.IH [OF this] step show ?thesis by auto
    qed
  qed
qed

lemma register_tools_distinct:
  assumes "distinct (map tool_name tools)"
    and "\<forall>t \<in> set tools. tool_name t \<notin> fst ` set (registeredTools server)"
    and "\<forall>t \<in> set tools. translates (tool_parameters t)"
  shows "\<exists>server'. register_tools tools server = Inr server' \<and>
           map fst (registeredTools server') = map fst (registeredTools server) @ map tool_name tools"
  using assms
proof (induction tools arbitrary: server)
  case Nil
  then show ?case by simp
next
  case (Cons tool tools)
  from Cons.prems have tr: "translates (tool_parameters tool)" by simp
  from Cons.prems have "map_of (registeredTools server) (tool_name tool) = None"
    by (simp add: map_of_eq_None_iff)
  from register_tools_step [OF tr this]
  obtain server' where step: "register_tools (tool # tools) server = register_tools tools server'"
    and names: "map fst (registeredTools server') = map fst (registeredTools server) @ [tool_name tool]"
    by blast
  from names have "set (map fst (registeredTools server'))
      = set (map fst (registeredTools server) @ [tool_name tool])"
    by simp
  then have keys: "fst ` set (registeredTools server')
      = insert (tool_name tool) (fst ` set (registeredTools server))"
    by simp
  from Cons.prems have other: "tool_name t \<noteq> tool_name tool" if "t \<in> set tools" for t
    using that by (metis distinct.simps(2) imageI list.simps(9) set_map)
  from Cons.prems other have "distinct (map tool_name tools)"
    and "\<forall>t \<in> set tools. tool_name t \<notin> fst ` set (registeredTools server')"
    and "\<forall>t \<in> set tools. translates (tool_parameters t)"
    unfolding keys by simp_all
  from Cons.IH [OF this] step names show ?case by auto
qed

lemma startup_distinct:
  assumes "distinct (map tool_name TOOLS)" and "\<forall>t \<in> set TOOLS. translates (tool_parameters t)"
  shows "\<exists>server. startup TOOLS = Inr server \<and> connected server \<and>
           map fst (registeredTools server) = map tool_name TOOLS"
proof -
  from register_tools_distinct [OF assms(1) _ assms(2), of new_McpServer]
  obtain server' where "register_tools TOOLS new_McpServer = Inr server'"
    and "map fst (registeredTools server') = map tool_name TOOLS"
    by (auto simp: new_McpServer_def)
  then show ?thesis by (simp add: startup_def)
qed

text \<open>
  C5. When two descriptors of the tool list have the same name, the module body ends with
  an error before \<^verbatim>\<open>server.connect\<close>: no server is ever connected, so no tool can be called.
  When every parameter schema of the list is one the translator returns on, the error is
  the one that \<^verbatim>\<open>server.tool\<close> throws for a name already registered.
\<close>

theorem duplicate_tool_name_fails_at_startup:
  assumes "\<not> distinct (map tool_name TOOLS)"
  shows "((\<forall>tool \<in> set TOOLS. translates (tool_parameters tool)) \<longrightarrow>
            (\<exists>name \<in> tool_name ` set TOOLS. startup TOOLS = Inl (AlreadyRegistered name))) \<and>
         (\<exists>e. startup TOOLS = Inl e) \<and>
         (\<forall>server. startup TOOLS \<noteq> Inr server)"
proof -
  from assms register_tools_duplicate [of TOOLS new_McpServer]
  have "(\<exists>name \<in> tool_name ` set TOOLS.
           register_tools TOOLS new_McpServer = Inl (AlreadyRegistered name)) \<or>
        (register_tools TOOLS new_McpServer = Inl (Thrown TypeError) \<and>
         (\<exists>t \<in> set TOOLS. \<not> translates (tool_parameters t)))"
    by blast
  then show ?thesis by (auto simp: startup_def)
qed

text \<open>
  Instance: a tool list with two entries both named \<^verbatim>\<open>list_emails\<close>.
\<close>

theorem duplicate_tool_name_witness:
  "startup [list_emails_tool ''first'', list_emails_tool ''second'']
     = Inl (AlreadyRegistered ''list_emails'')"
proof -
  have "\<not> distinct (map tool_name [list_emails_tool ''first'', list_emails_tool ''second''])"
    by (simp add: list_emails_tool_def)
  from duplicate_tool_name_fails_at_startup [OF this] show ?thesis
    by (simp add: list_emails_tool_def translates_def)
qed

section \<open>The serialiser writes pretty-printed JSON\<close>






lemma hex_value_digit_char:
  assumes "k < 16"
  shows "hex_value (digit_char k) = Some k"
proof -
  from assms have "k = 0 \<or> k = 1 \<or> k = 2 \<or> k = 3 \<or> k = 4 \<or> k = 5 \<or> k = 6 \<or> k = 7 \<or>
      k = 8 \<or> k = 9 \<or> k = 10 \<or> k = 11 \<or> k = 12 \<or> k = 13 \<or> k = 14 \<or> k = 15"
    by arith
  then show ?thesis
    by (elim disjE) (simp_all add: hex_value_def digit_char_def)
qed

lemma escape_char_decodes:
  "json_string_chars (escape_char c @ rest) = map_option ((#) c) (json_string_chars rest)"
proof (cases "c \<in> {CHR 0x08, CHR 0x09, CHR 0x0A, CHR 0x0C, CHR 0x0D, CHR 0x22, CHR 0x5C}")
  case True
  then show ?thesis
    by (auto simp: escape_char_def simple_escape_def)
next
  case False
  show ?thesis
  proof (cases "(of_char c :: nat) < 32")
    case True
    then have d: "(of_char c :: nat) div 16 < 16" "(of_char c :: nat) mod 16 < 16" by simp_all
    have z: "hex_value CHR ''0'' = Some 0" by (simp add: hex_value_def)
    have v: "(of_char c :: nat) div 16 * 16 + of_char c mod 16 = of_char c" by simp
    from True have b: "(of_char c :: nat) < 256" by simp
    from False True show ?thesis
      by (simp add: escape_char_def hex_value_digit_char [OF d(1)] hex_value_digit_char [OF d(2)]
          z v b)
  next
    case big: False
    with False show ?thesis
      by (simp add: escape_char_def)
  qed
qed

lemma json_string_chars_escaped:
  "json_string_chars (concat (map escape_char s)) = Some s"
  by (induction s) (simp_all add: escape_char_decodes del: json_string_chars.simps(2))

lemma QuoteJSONString_value: "json_string_value (QuoteJSONString s) = Some s"
  by (simp add: json_string_value_def QuoteJSONString_def json_string_chars_escaped
      butlast_append del: json_string_chars.simps)

section \<open>Wrapped invocation\<close>





text \<open>
  C7. When the handler throws or rejects with an error, the wrapped invocation logs the
  call, logs the error under the tool's name, and ends with that same error.
\<close>

theorem wrappedHandler_rethrows:
  assumes "tool_handler tool (if truthy args then args else JObj []) = Inl error"
  shows "wrappedHandler tool args log =
           (Inl error,
            log @ [LogInfo (''Tool '' @ tool_name tool @ '' called with args:'') (JSON_stringify args []),
                   LogError (''Error in tool '' @ tool_name tool @ '':'') error])"
  using assms by (simp add: wrappedHandler_def Let_def)

text \<open>
  Instance: a handler of \<^verbatim>\<open>list_emails\<close> that throws \<^verbatim>\<open>boom\<close>, called with \<^verbatim>\<open>{}\<close>.
\<close>

theorem wrappedHandler_rethrows_witness:
  "wrappedHandler (list_emails_tool ''boom'') (JObj []) [] =
     (Inl ''boom'',
      [LogInfo ''Tool list_emails called with args:'' (Some ''{}''),
       LogError ''Error in tool list_emails:'' ''boom''])"
proof -
  have "tool_handler (list_emails_tool ''boom'') (if truthy (JObj []) then JObj [] else JObj [])
      = Inl ''boom''"
    by (simp add: list_emails_tool_def)
  from wrappedHandler_rethrows [OF this, of "[]"] show ?thesis
    by (simp add: list_emails_tool_def JSON_stringify_def wrap_partial_def)
qed

section \<open>Object-typed fields\<close>

lemma object_field_accepts_every_mapping:
  assumes "fs_type val = JStr ''object''"
  shows "accepts (zodType_of val) (JObj flds)"
  using assms by (simp add: zodType_of_def accepts_def)

lemma object_alternative_accepts_every_mapping:
  assumes "fs_type val = JArr (map JStr ts)" and "length ts = 2 \<or> length ts = 3"
    and "''object'' \<in> set ts"
  shows "accepts (zodType_of val) (JObj flds)"
proof -
  have "accepts (zod_of_tag (JStr ''object'')) (JObj flds)"
    by (simp add: zod_of_tag_def accepts_def)
  with assms(3) show ?thesis
    unfolding zodType_of_multi [OF assms(1,2)] accepts_union by auto
qed

lemma wrappedHandler_without_arguments:
  "fst (wrappedHandler tool JUndefined log) = fst (wrappedHandler tool (JObj []) log)"
  by (simp add: wrappedHandler_def Let_def split: sum.splits)

lemma tools_call_without_arguments:
  "tools_call \<lparr>rt_description = d, rt_inputSchema = ZodObject shape, rt_callback = cb\<rparr>
     JUndefined log = None"
  by (simp add: tools_call_def)

text \<open>
  C9 at a call that supplies mappings for both fields: the call is accepted, the parsed
  data has both mappings emptied, and that is what the wrapped handler passes to the
  handler, whose echo is serialised into the envelope.
\<close>

theorem object_field_members_are_dropped:
  "jsonSchemaToZodShape (tool_parameters echo_tool) = Inr echo_shape \<and>
   zparse (ZodObject echo_shape) echo_arguments =
     Some (JObj [(''location'', JObj []), (''conditions'', JObj [])]) \<and>
   map_option fst
     (tools_call \<lparr>rt_description = [], rt_inputSchema = ZodObject echo_shape,
                  rt_callback = wrappedHandler echo_tool\<rparr> echo_arguments []) =
     Some (Inr (JObj [(''content'',
                       JArr [JObj [(''type'', JStr ''text''),
                                   (''text'',
                                    JStr (''{\<newline>  '' @ [CHR 0x22] @ ''location'' @ [CHR 0x22]
                                          @ '': {},\<newline>  '' @ [CHR 0x22] @ ''conditions''
                                          @ [CHR 0x22] @ '': {}\<newline>}''))]])]))"
proof -
  have shape: "jsonSchemaToZodShape (tool_parameters echo_tool) = Inr echo_shape"
    by (simp add: translator_defs echo_tool_def echo_shape_def)
  have parsed: "zparse (ZodObject echo_shape) echo_arguments =
      Some (JObj [(''location'', JObj []), (''conditions'', JObj [])])"
    by (simp add: echo_shape_def echo_arguments_def get_prop_def mergeObject_def has_prop_def)
  have serialised: "JSON_stringify (JObj [(''location'', JObj []), (''conditions'', JObj [])]) ''  '' =
      Some (''{\<newline>  '' @ [CHR 0x22] @ ''location'' @ [CHR 0x22]
            @ '': {},\<newline>  '' @ [CHR 0x22] @ ''conditions'' @ [CHR 0x22] @ '': {}\<newline>}'')"
    by code_simp
  have "fst (wrappedHandler echo_tool (JObj [(''location'', JObj []), (''conditions'', JObj [])]) [])
      = Inr (JObj [(''content'',
                    JArr [JObj [(''type'', JStr ''text''),
                                (''text'', js_of_text (JSON_stringify
                                   (JObj [(''location'', JObj []), (''conditions'', JObj [])]) ''  ''))]])])"
    by (simp add: wrappedHandler_def Let_def echo_tool_def)
  with shape parsed show ?thesis
    by (simp only: tools_call_def registered_tool.simps option.case option.map serialised js_of_text_def
        simp_thms)
qed

end
